theory Spec2Isabelle
  imports Complex_Main "HOL-Library.Sublist"
begin

section \<open>The OpenAI content generator: data model\<close>

text \<open>
  This theory embeds \<^verbatim>\<open>packages/core/src/core/openaiContentGenerator.ts\<close>, the adapter
  that lets the agent talk to an OpenAI-compatible chat API through the Gemini
  \<^verbatim>\<open>ContentGenerator\<close> interface. The file is present in two revisions; the embedding
  follows the later one (the class that imports \<^verbatim>\<open>FinishReason\<close> and accepts a
  \<^verbatim>\<open>ContentListUnion\<close>), which is the one the specification describes.

  The types are those the TypeScript source names: the \<^verbatim>\<open>@google/genai\<close> types
  \<^verbatim>\<open>Part\<close>, \<^verbatim>\<open>Content\<close>, \<^verbatim>\<open>FinishReason\<close>, \<^verbatim>\<open>GenerateContentResponse\<close>, and the
  OpenAI types \<^verbatim>\<open>ChatCompletion\<close> and \<^verbatim>\<open>ChatCompletionChunk\<close>. An optional field
  (\<^verbatim>\<open>text?: string\<close>) is an \<open>option\<close>: \<open>None\<close> stands for a key that is missing (or
  holds \<^verbatim>\<open>undefined\<close> or \<^verbatim>\<open>null\<close>); the source never tells these apart except through
  \<^verbatim>\<open>in\<close>, and there \<open>None\<close> is read as "the key is missing". A JavaScript string is the
  list of its code units, so that \<open>length\<close> is \<^verbatim>\<open>.length\<close> and \<open>[]\<close> is the empty string, the
  only string that is falsy.
\<close>

subsection \<open>Canonical side\<close>

text \<open>
  A \<^verbatim>\<open>Part\<close> carries an optional \<^verbatim>\<open>text\<close>; \<open>part_inlineData\<close> stands for the payload of
  the variants that carry no text (inline data, function calls).
\<close>

record Part =
  part_text :: "string option"
  part_inlineData :: "string option"

text \<open>\<^verbatim>\<open>PartUnion = Part | string\<close>\<close>

datatype PartUnion = PString string | PPart Part

record Content =
  role :: "string option"
  parts :: "PartUnion list option"

text \<open>\<^verbatim>\<open>ContentListUnion = Content | Content[] | PartUnion | PartUnion[]\<close>\<close>

datatype ContentListUnion =
    OneContent Content
  | ManyContents "Content list"
  | OnePart PartUnion
  | ManyParts "PartUnion list"

text \<open>\<^verbatim>\<open>ContentUnion = Content | PartUnion[] | PartUnion\<close>, the type of \<^verbatim>\<open>systemInstruction\<close>\<close>

datatype ContentUnion =
    SysContent Content
  | SysParts "PartUnion list"
  | SysPart PartUnion

text \<open>The \<^verbatim>\<open>FinishReason\<close> enum of \<^verbatim>\<open>@google/genai\<close>.\<close>

datatype FinishReason =
    FINISH_REASON_UNSPECIFIED
  | STOP
  | MAX_TOKENS
  | SAFETY
  | RECITATION
  | LANGUAGE
  | OTHER
  | BLOCKLIST
  | PROHIBITED_CONTENT
  | SPII
  | MALFORMED_FUNCTION_CALL
  | IMAGE_SAFETY

record Candidate =
  candidate_content :: "Content option"
  finishReason :: "FinishReason option"
  index :: "nat option"

record UsageMetadata =
  promptTokenCount :: "int option"
  candidatesTokenCount :: "int option"
  totalTokenCount :: "int option"

text \<open>
  \<^verbatim>\<open>new GenerateContentResponse()\<close> has every field undefined; the adapter then assigns
  \<^verbatim>\<open>candidates\<close> and \<^verbatim>\<open>usageMetadata\<close>.
\<close>

record GenerateContentResponse =
  candidates :: "Candidate list option"
  usageMetadata :: "UsageMetadata option"

subsection \<open>Provider side\<close>

datatype Role = System | User | Assistant

record ChatCompletionMessageParam =
  msg_role :: Role
  msg_content :: string

record ChatCompletionMessage =
  message_content :: "string option"

record Choice =
  message :: "ChatCompletionMessage option"
  finish_reason :: "string option"

record CompletionUsage =
  prompt_tokens :: "int option"
  completion_tokens :: "int option"
  total_tokens :: "int option"

record ChatCompletion =
  choices :: "Choice list"
  usage :: "CompletionUsage option"

subsection \<open>JavaScript operators the adapter relies on\<close>

text \<open>\<^verbatim>\<open>xs[0]\<close>: the first element, \<^verbatim>\<open>undefined\<close> on an empty array.\<close>

fun first_element :: "'a list \<Rightarrow> 'a option" where
  "first_element [] = None"
| "first_element (x # xs) = Some x"

text \<open>\<^verbatim>\<open>s || ''\<close> on a string that may be missing: the empty string is falsy too.\<close>

fun or_empty :: "string option \<Rightarrow> string" where
  "or_empty None = []"
| "or_empty (Some s) = s"

text \<open>\<^verbatim>\<open>n || 0\<close> on a counter that may be missing: \<^verbatim>\<open>0\<close> is falsy and stays \<^verbatim>\<open>0\<close>.\<close>

fun or_zero :: "int option \<Rightarrow> int" where
  "or_zero None = 0"
| "or_zero (Some n) = n"

section \<open>Response Normalizer\<close>

text \<open>
  \<^verbatim>\<open>convertToGeminiResponse\<close>. \<open>Option.bind a f\<close> is the optional chaining \<^verbatim>\<open>a?.f\<close>:
  \<^verbatim>\<open>undefined\<close> when \<^verbatim>\<open>a\<close> is, the field otherwise.
\<close>

definition convertToGeminiResponse :: "ChatCompletion \<Rightarrow> GenerateContentResponse" where
  "convertToGeminiResponse response =
    (let choice = first_element (choices response);
         content = or_empty (Option.bind (Option.bind choice message) message_content);
         finishReason =
           (if Option.bind choice finish_reason = Some ''stop'' then STOP
            else if Option.bind choice finish_reason = Some ''length'' then MAX_TOKENS
            else if Option.bind choice finish_reason = Some ''content_filter'' then SAFETY
            else OTHER)
     in \<lparr> candidates = Some
            [\<lparr> candidate_content = Some
                  \<lparr> role = Some ''model'',
                    parts = Some [PPart \<lparr> part_text = Some content, part_inlineData = None \<rparr>] \<rparr>,
                finishReason = Some finishReason,
                index = Some 0 \<rparr>],
          usageMetadata = Some
            \<lparr> promptTokenCount = Some (or_zero (Option.bind (usage response) prompt_tokens)),
              candidatesTokenCount = Some (or_zero (Option.bind (usage response) completion_tokens)),
              totalTokenCount = Some (or_zero (Option.bind (usage response) total_tokens)) \<rparr> \<rparr>)"

section \<open>Message Translator\<close>

text \<open>\<^verbatim>\<open>'\n'\<close>, the separator of every \<^verbatim>\<open>join\<close> but the token estimator's.\<close>

definition newline :: string where
  "newline = [CHR 0x0A]"

text \<open>\<^verbatim>\<open>Array.prototype.join\<close> on an array of strings.\<close>

fun join :: "string \<Rightarrow> string list \<Rightarrow> string" where
  "join sep [] = []"
| "join sep [x] = x"
| "join sep (x # y # ys) = x @ sep @ join sep (y # ys)"

text \<open>
  What \<^verbatim>\<open>join\<close> makes of an element of a \<^verbatim>\<open>PartUnion[]\<close>: a string is itself, an
  object is \<^verbatim>\<open>[object Object]\<close>.
\<close>

fun toString :: "PartUnion \<Rightarrow> string" where
  "toString (PString s) = s"
| "toString (PPart p) = ''[object Object]''"

text \<open>
  The loop that fills \<^verbatim>\<open>textParts\<close>; the source repeats it verbatim for a \<^verbatim>\<open>user\<close>
  turn, for a \<^verbatim>\<open>model\<close> turn and for the two list encodings of the system instruction:
  \<^verbatim>\<open>
  for (const part of parts) {
    if (typeof part === 'string') textParts.push(part);
    else if (typeof part === 'object' && 'text' in part && part.text) textParts.push(part.text);
  }\<close>
  \<^verbatim>\<open>part.text\<close> is truthy when it is a string that is not empty.
\<close>

fun textParts :: "PartUnion list \<Rightarrow> string list" where
  "textParts [] = []"
| "textParts (PString s # rest) = s # textParts rest"
| "textParts (PPart p # rest) =
     (case part_text p of
        None \<Rightarrow> textParts rest
      | Some t \<Rightarrow> if t \<noteq> [] then t # textParts rest else textParts rest)"

text \<open>
  A \<^verbatim>\<open>Content\<close> that the source casts to a \<^verbatim>\<open>Part\<close> (\<^verbatim>\<open>contentsUnion as Part[]\<close>): an
  object with no \<^verbatim>\<open>text\<close> key.
\<close>

definition contentAsPart :: "Content \<Rightarrow> PartUnion" where
  "contentAsPart c = PPart \<lparr> part_text = None, part_inlineData = None \<rparr>"

text \<open>
  The first half of \<^verbatim>\<open>convertToOpenAIMessages\<close>: the two early returns (\<open>Inl\<close>) and the
  normalisation of every other shape to a \<^verbatim>\<open>Content[]\<close> (\<open>Inr\<close>). The tests run in the
  source's order: a string; an array whose first element is a string; an array whose
  first element is an object with a \<^verbatim>\<open>role\<close> key; any other array; an object with a
  \<^verbatim>\<open>role\<close> key; any other object.
\<close>

fun normalizeContents ::
  "ContentListUnion \<Rightarrow> ChatCompletionMessageParam list + Content list" where
  "normalizeContents (OnePart (PString s)) =
     Inl [\<lparr> msg_role = User, msg_content = s \<rparr>]"
| "normalizeContents (ManyParts (PString s # rest)) =
     Inl [\<lparr> msg_role = User, msg_content = join newline (map toString (PString s # rest)) \<rparr>]"
| "normalizeContents (ManyParts ps) =
     Inr [\<lparr> role = Some ''user'', parts = Some ps \<rparr>]"
| "normalizeContents (ManyContents []) =
     Inr [\<lparr> role = Some ''user'', parts = Some [] \<rparr>]"
| "normalizeContents (ManyContents (c # cs)) =
     (if role c \<noteq> None then Inr (c # cs)
      else Inr [\<lparr> role = Some ''user'', parts = Some (map contentAsPart (c # cs)) \<rparr>])"
| "normalizeContents (OneContent c) =
     (if role c \<noteq> None then Inr [c]
      else Inr [\<lparr> role = Some ''user'', parts = Some [contentAsPart c] \<rparr>])"
| "normalizeContents (OnePart (PPart p)) =
     Inr [\<lparr> role = Some ''user'', parts = Some [PPart p] \<rparr>]"

text \<open>
  The second half: the loop over \<^verbatim>\<open>contents\<close>. A turn without \<^verbatim>\<open>parts\<close> is skipped
  (\<^verbatim>\<open>continue\<close>), a \<^verbatim>\<open>user\<close> or \<^verbatim>\<open>model\<close> turn pushes one message when \<^verbatim>\<open>textParts\<close> is
  not empty, and a turn of any other role pushes nothing.
\<close>

fun translateContents :: "Content list \<Rightarrow> ChatCompletionMessageParam list" where
  "translateContents [] = []"
| "translateContents (content # rest) =
     (case parts content of
        None \<Rightarrow> translateContents rest
      | Some ps \<Rightarrow>
          if role content = Some ''user'' then
            (if length (textParts ps) > 0
             then \<lparr> msg_role = User, msg_content = join newline (textParts ps) \<rparr>
                    # translateContents rest
             else translateContents rest)
          else if role content = Some ''model'' then
            (if length (textParts ps) > 0
             then \<lparr> msg_role = Assistant, msg_content = join newline (textParts ps) \<rparr>
                    # translateContents rest
             else translateContents rest)
          else translateContents rest)"

definition convertToOpenAIMessages ::
  "ContentListUnion \<Rightarrow> ChatCompletionMessageParam list" where
  "convertToOpenAIMessages contentsUnion =
     (case normalizeContents contentsUnion of
        Inl messages \<Rightarrow> messages
      | Inr contents \<Rightarrow> translateContents contents)"

section \<open>Generation requests\<close>

record GenerateContentConfig =
  systemInstruction :: "ContentUnion option"
  temperature :: "real option"
  maxOutputTokens :: "int option"
  topP :: "real option"

record GenerateContentParameters =
  model :: string
  contents :: ContentListUnion
  config :: "GenerateContentConfig option"

text \<open>The argument of \<^verbatim>\<open>client.chat.completions.create\<close>.\<close>

record ChatCompletionCreateParams =
  create_model :: string
  create_messages :: "ChatCompletionMessageParam list"
  create_temperature :: "real option"
  create_max_tokens :: "int option"
  create_top_p :: "real option"
  create_stream :: bool

text \<open>
  What the adapter can throw: whatever the provider call throws (it is not caught), and
  the \<^verbatim>\<open>TypeError\<close> of reading a property of \<^verbatim>\<open>undefined\<close>.
\<close>

datatype error = ProviderError string | TypeError

text \<open>
  The text of the system instruction, as both \<^verbatim>\<open>generateContent\<close> and the generator of
  \<^verbatim>\<open>generateContentStream\<close> compute it (the same block in both). The outer test
  \<^verbatim>\<open>if (request.config?.systemInstruction)\<close> fails for a missing instruction and for the
  empty string; inside, the branches are tried in the source's order: a string, an
  object with a \<^verbatim>\<open>text\<close> key, an array, an object with a \<^verbatim>\<open>parts\<close> key. \<^verbatim>\<open>systemText\<close>
  starts as \<^verbatim>\<open>''\<close> and stays so when no branch applies (a \<^verbatim>\<open>Part\<close> without \<^verbatim>\<open>text\<close>, a
  \<^verbatim>\<open>Content\<close> without \<^verbatim>\<open>parts\<close>).
\<close>

fun systemText :: "ContentUnion option \<Rightarrow> string" where
  "systemText None = []"
| "systemText (Some (SysPart (PString s))) = s"
| "systemText (Some (SysPart (PPart p))) = (case part_text p of Some t \<Rightarrow> t | None \<Rightarrow> [])"
| "systemText (Some (SysParts ps)) = join newline (textParts ps)"
| "systemText (Some (SysContent c)) =
     (case parts c of None \<Rightarrow> [] | Some ps \<Rightarrow> join newline (textParts ps))"

text \<open>
  \<^verbatim>\<open>messages\<close> as it stands when the provider is called: the translated conversation,
  with the system message put in front (\<^verbatim>\<open>unshift\<close>) when \<^verbatim>\<open>systemText\<close> is truthy.
\<close>

definition requestMessages :: "GenerateContentParameters \<Rightarrow> ChatCompletionMessageParam list" where
  "requestMessages request =
     (let messages = convertToOpenAIMessages (contents request);
          text = systemText (Option.bind (config request) systemInstruction)
      in if text \<noteq> [] then \<lparr> msg_role = System, msg_content = text \<rparr> # messages
         else messages)"

definition createParams :: "GenerateContentParameters \<Rightarrow> bool \<Rightarrow> ChatCompletionCreateParams" where
  "createParams request streaming =
     \<lparr> create_model = model request,
       create_messages = requestMessages request,
       create_temperature = Option.bind (config request) temperature,
       create_max_tokens = Option.bind (config request) maxOutputTokens,
       create_top_p = Option.bind (config request) topP,
       create_stream = streaming \<rparr>"

text \<open>
  \<^verbatim>\<open>generateContent\<close>; \<open>create\<close> is the provider call, whose failure propagates.
\<close>

definition generateContent ::
  "(ChatCompletionCreateParams \<Rightarrow> error + ChatCompletion) \<Rightarrow>
   GenerateContentParameters \<Rightarrow> error + GenerateContentResponse" where
  "generateContent create request =
     (case create (createParams request False) of
        Inl e \<Rightarrow> Inl e
      | Inr response \<Rightarrow> Inr (convertToGeminiResponse response))"

section \<open>Stream Accumulator\<close>

record ChoiceDelta =
  delta_content :: "string option"

record ChunkChoice =
  delta :: "ChoiceDelta option"
  chunk_finish_reason :: "string option"

record ChatCompletionChunk =
  chunk_choices :: "ChunkChoice list"

text \<open>\<^verbatim>\<open>chunk.choices[0]?.delta?.content || ''\<close>\<close>

definition chunkDelta :: "ChatCompletionChunk \<Rightarrow> string" where
  "chunkDelta chunk =
     or_empty (Option.bind (Option.bind (first_element (chunk_choices chunk)) delta) delta_content)"

text \<open>The response that the generator yields for one chunk, given the text accumulated so far.\<close>

definition chunkResponse :: "string \<Rightarrow> ChatCompletionChunk \<Rightarrow> GenerateContentResponse" where
  "chunkResponse accumulatedText chunk =
    (let finishReason =
           (if Option.bind (first_element (chunk_choices chunk)) chunk_finish_reason = Some ''stop''
              then STOP
            else if Option.bind (first_element (chunk_choices chunk)) chunk_finish_reason = Some ''length''
              then MAX_TOKENS
            else if Option.bind (first_element (chunk_choices chunk)) chunk_finish_reason
                      = Some ''content_filter''
              then SAFETY
            else OTHER)
     in \<lparr> candidates = Some
            [\<lparr> candidate_content = Some
                  \<lparr> role = Some ''model'',
                    parts = Some [PPart \<lparr> part_text = Some accumulatedText, part_inlineData = None \<rparr>] \<rparr>,
                finishReason = Some finishReason,
                index = Some 0 \<rparr>],
          usageMetadata = Some
            \<lparr> promptTokenCount = Some 0,
              candidatesTokenCount = Some 0,
              totalTokenCount = Some 0 \<rparr> \<rparr>)"

text \<open>
  The \<^verbatim>\<open>for await\<close> loop of \<^verbatim>\<open>streamGenerator\<close>: the state is \<^verbatim>\<open>accumulatedText\<close>, the
  result is the sequence of responses yielded, one for each chunk.
\<close>

fun streamLoop :: "string \<Rightarrow> ChatCompletionChunk list \<Rightarrow> GenerateContentResponse list" where
  "streamLoop accumulatedText [] = []"
| "streamLoop accumulatedText (chunk # rest) =
     chunkResponse (accumulatedText @ chunkDelta chunk) chunk
       # streamLoop (accumulatedText @ chunkDelta chunk) rest"

text \<open>
  \<^verbatim>\<open>generateContentStream\<close>; \<open>create\<close> is the provider call with \<^verbatim>\<open>stream: true\<close>, which
  fails or delivers a finite sequence of chunks. \<^verbatim>\<open>accumulatedText\<close> starts empty.
\<close>

definition generateContentStream ::
  "(ChatCompletionCreateParams \<Rightarrow> error + ChatCompletionChunk list) \<Rightarrow>
   GenerateContentParameters \<Rightarrow> error + GenerateContentResponse list" where
  "generateContentStream create request =
     (case create (createParams request True) of
        Inl e \<Rightarrow> Inl e
      | Inr stream \<Rightarrow> Inr (streamLoop [] stream))"

section \<open>Token Estimator\<close>

record CountTokensParameters =
  count_model :: string
  count_contents :: ContentListUnion

record CountTokensResponse =
  totalTokens :: int

text \<open>
  \<^verbatim>\<open>countTokens\<close>: \<^verbatim>\<open>Math.ceil(totalText.length / 4)\<close>, where \<^verbatim>\<open>totalText\<close> is
  \<^verbatim>\<open>messages.map((m) => m.content).join('')\<close>. The division is JavaScript's, on numbers,
  and exact here (a length divided by a power of two).
\<close>

definition countTokens :: "CountTokensParameters \<Rightarrow> CountTokensResponse" where
  "countTokens request =
     (let messages = convertToOpenAIMessages (count_contents request);
          totalText = join [] (map msg_content messages);
          estimatedTokens = \<lceil>real (length totalText) / 4\<rceil>
      in \<lparr> totalTokens = estimatedTokens \<rparr>)"

section \<open>Embedding Adapter\<close>

record EmbedContentParameters =
  embed_model :: string
  embed_contents :: ContentListUnion

record EmbeddingCreateParams =
  embedding_model :: string
  embedding_input :: string

record Embedding =
  embedding :: "real list"

record CreateEmbeddingResponse =
  data :: "Embedding list"

text \<open>\<open>embedding_values\<close> is the field \<^verbatim>\<open>values\<close> of a \<^verbatim>\<open>ContentEmbedding\<close>.\<close>

record ContentEmbedding =
  embedding_values :: "real list"

record EmbedContentResponse =
  embeddings :: "ContentEmbedding list option"

text \<open>
  \<^verbatim>\<open>embedContent\<close>; \<open>create\<close> is \<^verbatim>\<open>client.embeddings.create\<close>. \<^verbatim>\<open>response.data[0].embedding\<close>
  throws a \<^verbatim>\<open>TypeError\<close> when \<^verbatim>\<open>data\<close> is empty.
\<close>

definition embedContent ::
  "(EmbeddingCreateParams \<Rightarrow> error + CreateEmbeddingResponse) \<Rightarrow>
   EmbedContentParameters \<Rightarrow> error + EmbedContentResponse" where
  "embedContent create request =
     (let messages = convertToOpenAIMessages (embed_contents request);
          text = join newline (map msg_content messages)
      in case create \<lparr> embedding_model = ''text-embedding-3-small'', embedding_input = text \<rparr> of
           Inl e \<Rightarrow> Inl e
         | Inr response \<Rightarrow>
             (case data response of
                [] \<Rightarrow> Inl TypeError
              | d # _ \<Rightarrow> Inr \<lparr> embeddings = Some [\<lparr> embedding_values = embedding d \<rparr>] \<rparr>))"

section \<open>Observations and the specification's tables\<close>

text \<open>
  What a caller reads off a canonical response: for each candidate the finish reason, and
  for each candidate the texts of its parts.
\<close>

definition responseFinishReasons :: "GenerateContentResponse \<Rightarrow> FinishReason option list" where
  "responseFinishReasons r = (case candidates r of None \<Rightarrow> [] | Some cs \<Rightarrow> map finishReason cs)"

fun partText :: "PartUnion \<Rightarrow> string option" where
  "partText (PString s) = Some s"
| "partText (PPart p) = part_text p"

definition candidateTexts :: "Candidate \<Rightarrow> string option list" where
  "candidateTexts c =
     (case candidate_content c of
        None \<Rightarrow> []
      | Some content \<Rightarrow> (case parts content of None \<Rightarrow> [] | Some ps \<Rightarrow> map partText ps))"

definition responseTexts :: "GenerateContentResponse \<Rightarrow> string option list list" where
  "responseTexts r = (case candidates r of None \<Rightarrow> [] | Some cs \<Rightarrow> map candidateTexts cs)"

text \<open>
  The specification's closed table of finish signals: \<^verbatim>\<open>stop\<close> to \<^verbatim>\<open>STOP\<close>, \<^verbatim>\<open>length\<close> to
  \<^verbatim>\<open>MAX_TOKENS\<close>, \<^verbatim>\<open>content_filter\<close> to \<^verbatim>\<open>SAFETY\<close>, anything else (also an absent signal) to
  \<^verbatim>\<open>OTHER\<close>.
\<close>

definition finish_table :: "(string \<times> FinishReason) list" where
  "finish_table = [(''stop'', STOP), (''length'', MAX_TOKENS), (''content_filter'', SAFETY)]"

definition finishReasonTable :: "string option \<Rightarrow> FinishReason" where
  "finishReasonTable signal =
     (case signal of
        None \<Rightarrow> OTHER
      | Some s \<Rightarrow> (case map_of finish_table s of None \<Rightarrow> OTHER | Some r \<Rightarrow> r))"

text \<open>
  The specification's "first provider choice's text (empty string if absent)".
\<close>

definition firstChoiceText :: "ChatCompletion \<Rightarrow> string" where
  "firstChoiceText response =
     (case choices response of
        [] \<Rightarrow> []
      | c # _ \<Rightarrow> (case message c of
                   None \<Rightarrow> []
                 | Some m \<Rightarrow> (case message_content m of None \<Rightarrow> [] | Some t \<Rightarrow> t)))"

text \<open>
  The specification's usage counter: the provider's value when present, 0 when the
  counter or the whole usage record is missing.
\<close>

definition usageCounter :: "CompletionUsage option \<Rightarrow> (CompletionUsage \<Rightarrow> int option) \<Rightarrow> int" where
  "usageCounter u field =
     (case u of None \<Rightarrow> 0 | Some v \<Rightarrow> (case field v of None \<Rightarrow> 0 | Some n \<Rightarrow> n))"

text \<open>
  The specification's Text parts of a turn: a part bears text when it is a plain string
  or carries a \<^verbatim>\<open>text\<close> that is not empty.
\<close>

fun textBearing :: "PartUnion \<Rightarrow> string option" where
  "textBearing (PString s) = Some s"
| "textBearing (PPart p) =
     (case part_text p of None \<Rightarrow> None | Some t \<Rightarrow> if t = [] then None else Some t)"

definition turnTexts :: "Content \<Rightarrow> string list" where
  "turnTexts t = (case parts t of None \<Rightarrow> [] | Some ps \<Rightarrow> List.map_filter textBearing ps)"

text \<open>
  The specification's rule for one turn: a turn without any Text part gives no message; a
  \<^verbatim>\<open>user\<close> turn gives one \<^verbatim>\<open>user\<close> message, a \<^verbatim>\<open>model\<close> turn one \<^verbatim>\<open>assistant\<close> message, the
  content being the Text parts joined by newlines.
\<close>

definition turnMessage :: "Content \<Rightarrow> ChatCompletionMessageParam option" where
  "turnMessage t =
     (if turnTexts t = [] then None
      else if role t = Some ''user''
        then Some \<lparr> msg_role = User, msg_content = join newline (turnTexts t) \<rparr>
      else if role t = Some ''model''
        then Some \<lparr> msg_role = Assistant, msg_content = join newline (turnTexts t) \<rparr>
      else None)"

text \<open>The messages of role \<^verbatim>\<open>system\<close> in a provider message list.\<close>

definition systemMessages :: "ChatCompletionMessageParam list \<Rightarrow> ChatCompletionMessageParam list" where
  "systemMessages ms = filter (\<lambda>m. msg_role m = System) ms"

text \<open>
  A \<^verbatim>\<open>Part\<close> whose \<^verbatim>\<open>text\<close> is the empty string, a list of parts without such parts, and a
  turn without them.
\<close>

definition emptyText :: "PartUnion \<Rightarrow> bool" where
  "emptyText p = (case p of PString s \<Rightarrow> False | PPart q \<Rightarrow> part_text q = Some [])"

definition dropEmptyText :: "PartUnion list \<Rightarrow> PartUnion list" where
  "dropEmptyText ps = filter (\<lambda>p. \<not> emptyText p) ps"

definition withoutEmptyText :: "Content \<Rightarrow> Content" where
  "withoutEmptyText c = c\<lparr> parts := map_option dropEmptyText (parts c) \<rparr>"

section \<open>Example inputs\<close>

text \<open>
  Shorthands for the concrete inputs at which the theorems below are instantiated; they
  follow the specification's end-to-end scenarios.
\<close>

definition textPart :: "string \<Rightarrow> PartUnion" where
  "textPart s = PPart \<lparr> part_text = Some s, part_inlineData = None \<rparr>"

definition dataPart :: "string \<Rightarrow> PartUnion" where
  "dataPart d = PPart \<lparr> part_text = None, part_inlineData = Some d \<rparr>"

definition turn :: "string \<Rightarrow> PartUnion list \<Rightarrow> Content" where
  "turn r ps = \<lparr> role = Some r, parts = Some ps \<rparr>"

definition textChunk :: "string \<Rightarrow> string option \<Rightarrow> ChatCompletionChunk" where
  "textChunk d signal =
     \<lparr> chunk_choices = [\<lparr> delta = Some \<lparr> delta_content = Some d \<rparr>, chunk_finish_reason = signal \<rparr>] \<rparr>"

definition example_stream :: "ChatCompletionChunk list" where
  "example_stream =
     [textChunk ''The'' None, textChunk '' answer'' None, textChunk '' is 4'' (Some ''stop'')]"

definition example_conversation :: "Content list" where
  "example_conversation =
     [turn ''user'' [PString ''Hello'', textPart ''world''],
      turn ''model'' [textPart ''Hi''],
      turn ''user'' [dataPart ''png''],
      turn ''model'' [textPart []]]"

definition example_request :: GenerateContentParameters where
  "example_request =
     \<lparr> model = ''gpt'',
       contents = ManyContents [turn ''user'' [textPart ''Hello'']],
       config = Some \<lparr> systemInstruction = Some (SysPart (PString ''Be terse'')),
                       temperature = None, maxOutputTokens = None, topP = None \<rparr> \<rparr>"

section \<open>Properties of the Response Normalizer\<close>

lemma finishReasonTable_if:
  "finishReasonTable signal =
     (if signal = Some ''stop'' then STOP
      else if signal = Some ''length'' then MAX_TOKENS
      else if signal = Some ''content_filter'' then SAFETY
      else OTHER)"
  by (cases signal) (simp_all add: finishReasonTable_def finish_table_def)

lemma convert_finishReason:
  "responseFinishReasons (convertToGeminiResponse response) =
     [Some (finishReasonTable (Option.bind (first_element (choices response)) finish_reason))]"
  by (simp add: responseFinishReasons_def convertToGeminiResponse_def finishReasonTable_if Let_def)

lemma chunkResponse_finishReason:
  "responseFinishReasons (chunkResponse acc chunk) =
     [Some (finishReasonTable (Option.bind (first_element (chunk_choices chunk)) chunk_finish_reason))]"
  by (simp add: responseFinishReasons_def chunkResponse_def finishReasonTable_if Let_def)

lemma streamLoop_finishReasons:
  "map responseFinishReasons (streamLoop acc stream) =
     map (\<lambda>chunk. [Some (finishReasonTable
            (Option.bind (first_element (chunk_choices chunk)) chunk_finish_reason))]) stream"
  by (induction stream arbitrary: acc) (simp_all add: chunkResponse_finishReason)

text \<open>
  C1. The finish reason of the one candidate that \<open>convertToGeminiResponse\<close> returns is
  the table's entry for the first choice's finish signal, and the finish reason of each
  response that \<open>generateContentStream\<close> yields is the table's entry for that chunk's
  signal. The table sends \<^verbatim>\<open>stop\<close> to \<open>STOP\<close>, \<^verbatim>\<open>length\<close> to \<open>MAX_TOKENS\<close>, \<^verbatim>\<open>content_filter\<close>
  to \<open>SAFETY\<close>, an absent signal and every other string to \<open>OTHER\<close>; it has no fifth
  outcome, and both functions return a value for every signal.
\<close>

theorem finish_reason_closed_table:
  "responseFinishReasons (convertToGeminiResponse response) =
     [Some (finishReasonTable (Option.bind (first_element (choices response)) finish_reason))]
   \<and> (create (createParams request True) = Inr stream \<longrightarrow>
        (\<exists>rs. generateContentStream create request = Inr rs \<and>
          map responseFinishReasons rs =
            map (\<lambda>chunk. [Some (finishReasonTable
                  (Option.bind (first_element (chunk_choices chunk)) chunk_finish_reason))]) stream))
   \<and> finishReasonTable (Some ''stop'') = STOP
   \<and> finishReasonTable (Some ''length'') = MAX_TOKENS
   \<and> finishReasonTable (Some ''content_filter'') = SAFETY
   \<and> finishReasonTable None = OTHER
   \<and> (s \<notin> {''stop'', ''length'', ''content_filter''} \<longrightarrow> finishReasonTable (Some s) = OTHER)
   \<and> finishReasonTable signal \<in> {STOP, MAX_TOKENS, SAFETY, OTHER}"
  by (simp add: convert_finishReason generateContentStream_def streamLoop_finishReasons
        finishReasonTable_if)

theorem finish_reason_closed_table_witness:
  "responseFinishReasons (convertToGeminiResponse
      \<lparr> choices = [\<lparr> message = None, finish_reason = Some ''tool_calls'' \<rparr>], usage = None \<rparr>)
     = [Some OTHER]
   \<and> (\<exists>rs. generateContentStream
              (\<lambda>p. Inr [\<lparr> chunk_choices = [\<lparr> delta = None, chunk_finish_reason = None \<rparr>] \<rparr>,
                         \<lparr> chunk_choices = [\<lparr> delta = None, chunk_finish_reason = Some ''length'' \<rparr>] \<rparr>,
                         \<lparr> chunk_choices = [] \<rparr>])
              \<lparr> model = ''m'', contents = OnePart (PString ''hi''), config = None \<rparr> = Inr rs
          \<and> map responseFinishReasons rs = [[Some OTHER], [Some MAX_TOKENS], [Some OTHER]])
   \<and> finishReasonTable (Some ''tool_calls'') = OTHER"
  using finish_reason_closed_table
    [of "\<lparr> choices = [\<lparr> message = None, finish_reason = Some ''tool_calls'' \<rparr>], usage = None \<rparr>"
        "\<lambda>p. Inr [\<lparr> chunk_choices = [\<lparr> delta = None, chunk_finish_reason = None \<rparr>] \<rparr>,
                  \<lparr> chunk_choices = [\<lparr> delta = None, chunk_finish_reason = Some ''length'' \<rparr>] \<rparr>,
                  \<lparr> chunk_choices = [] \<rparr>]"
        "\<lparr> model = ''m'', contents = OnePart (PString ''hi''), config = None \<rparr>"
        "[\<lparr> chunk_choices = [\<lparr> delta = None, chunk_finish_reason = None \<rparr>] \<rparr>,
          \<lparr> chunk_choices = [\<lparr> delta = None, chunk_finish_reason = Some ''length'' \<rparr>] \<rparr>,
          \<lparr> chunk_choices = [] \<rparr>]"
        "''tool_calls''" "None"]
  by (simp add: finishReasonTable_if)

lemma convert_content:
  "or_empty (Option.bind (Option.bind (first_element (choices response)) message) message_content)
     = firstChoiceText response"
  by (cases "choices response") (simp_all add: firstChoiceText_def split: option.splits)

text \<open>
  C5. \<open>convertToGeminiResponse\<close> returns exactly one candidate; its index is 0, its
  content has role \<^verbatim>\<open>model\<close> and exactly one part, a text part, whose text is the content
  of the first choice's message. Choices after the first do not change the result. The
  text is the empty string when the first choice's content, its message or the choice
  itself is absent.
\<close>

theorem single_candidate_from_first_choice:
  "(\<exists>c. candidates (convertToGeminiResponse response) = Some [c]
        \<and> index c = Some 0
        \<and> candidate_content c = Some
            \<lparr> role = Some ''model'',
              parts = Some [PPart \<lparr> part_text = Some (firstChoiceText response),
                                   part_inlineData = None \<rparr>] \<rparr>)
   \<and> responseTexts (convertToGeminiResponse response) = [[Some (firstChoiceText response)]]
   \<and> convertToGeminiResponse (response\<lparr> choices := c # cs \<rparr>)
       = convertToGeminiResponse (response\<lparr> choices := [c] \<rparr>)
   \<and> firstChoiceText (response\<lparr> choices := \<lparr> message = Some \<lparr> message_content = Some t \<rparr>,
                                            finish_reason = fr \<rparr> # cs \<rparr>) = t
   \<and> firstChoiceText (response\<lparr> choices := \<lparr> message = Some \<lparr> message_content = None \<rparr>,
                                            finish_reason = fr \<rparr> # cs \<rparr>) = []
   \<and> firstChoiceText (response\<lparr> choices := \<lparr> message = None, finish_reason = fr \<rparr> # cs \<rparr>) = []
   \<and> firstChoiceText (response\<lparr> choices := [] \<rparr>) = []"
  unfolding convertToGeminiResponse_def Let_def convert_content
  by (simp add: responseTexts_def candidateTexts_def) (simp add: firstChoiceText_def)

lemma or_zero_usageCounter: "or_zero (Option.bind u field) = usageCounter u field"
  by (simp add: usageCounter_def split: option.splits)

text \<open>
  C6. The response of \<open>convertToGeminiResponse\<close> always has its usage record, and in it
  all three counters: each is the provider's counter when the provider gave one, and 0
  when the provider left the counter out or sent no usage at all.
\<close>

theorem usage_counters_default_to_zero:
  "usageMetadata (convertToGeminiResponse response) = Some
     \<lparr> promptTokenCount = Some (usageCounter (usage response) prompt_tokens),
       candidatesTokenCount = Some (usageCounter (usage response) completion_tokens),
       totalTokenCount = Some (usageCounter (usage response) total_tokens) \<rparr>
   \<and> usageCounter None field = 0
   \<and> (missing u = None \<longrightarrow> usageCounter (Some u) missing = 0)
   \<and> (present v = Some n \<longrightarrow> usageCounter (Some v) present = n)"
  unfolding convertToGeminiResponse_def Let_def or_zero_usageCounter
  by (simp add: usageCounter_def)

theorem usage_counters_default_to_zero_witness:
  "usageMetadata (convertToGeminiResponse
      \<lparr> choices = [],
        usage = Some \<lparr> prompt_tokens = Some 12, completion_tokens = None, total_tokens = Some 0 \<rparr> \<rparr>)
     = Some \<lparr> promptTokenCount = Some 12, candidatesTokenCount = Some 0, totalTokenCount = Some 0 \<rparr>
   \<and> usageMetadata (convertToGeminiResponse \<lparr> choices = [], usage = None \<rparr>)
     = Some \<lparr> promptTokenCount = Some 0, candidatesTokenCount = Some 0, totalTokenCount = Some 0 \<rparr>"
proof -
  let ?u = "\<lparr> prompt_tokens = Some 12, completion_tokens = None, total_tokens = Some 0 \<rparr>"
  have absent: "completion_tokens ?u = None" and given: "prompt_tokens ?u = Some 12"
    and zero: "total_tokens ?u = Some 0"
    by simp_all
  note counted = usage_counters_default_to_zero
    [where response = "\<lparr> choices = [], usage = Some ?u \<rparr>"
       and missing = completion_tokens and u = ?u and present = prompt_tokens and v = ?u and n = 12]
  note total = usage_counters_default_to_zero
    [where response = "\<lparr> choices = [], usage = None \<rparr>"
       and missing = completion_tokens and u = ?u and present = total_tokens and v = ?u and n = 0
       and field = prompt_tokens]
  from counted absent given total zero show ?thesis
    by simp
qed

text \<open>
  The first scenario's provider answer, with a second choice added: the text is that of
  the first choice; and a response without choices gives the empty text.
\<close>

theorem single_candidate_from_first_choice_witness:
  "responseTexts (convertToGeminiResponse
      \<lparr> choices = [\<lparr> message = Some \<lparr> message_content = Some ''Hi'' \<rparr>, finish_reason = Some ''stop'' \<rparr>,
                   \<lparr> message = Some \<lparr> message_content = Some ''Yo'' \<rparr>, finish_reason = Some ''stop'' \<rparr>],
        usage = None \<rparr>) = [[Some ''Hi'']]
   \<and> responseTexts (convertToGeminiResponse \<lparr> choices = [], usage = None \<rparr>) = [[Some []]]"
proof -
  let ?hi = "\<lparr> message = Some \<lparr> message_content = Some ''Hi'' \<rparr>, finish_reason = Some ''stop'' \<rparr>"
  let ?yo = "\<lparr> message = Some \<lparr> message_content = Some ''Yo'' \<rparr>, finish_reason = Some ''stop'' \<rparr>"
  note first = single_candidate_from_first_choice
    [where response = "\<lparr> choices = [?hi, ?yo], usage = None \<rparr>" and t = "''Hi''"
       and fr = "Some ''stop''" and cs = "[?yo]"]
  note none = single_candidate_from_first_choice
    [where response = "\<lparr> choices = [], usage = None \<rparr>"]
  from first none show ?thesis by simp
qed

section \<open>Properties of the Stream Accumulator\<close>

lemma chunkResponse_texts: "responseTexts (chunkResponse acc chunk) = [[Some acc]]"
  by (simp add: responseTexts_def candidateTexts_def chunkResponse_def Let_def)

lemma length_streamLoop: "length (streamLoop acc stream) = length stream"
  by (induction stream arbitrary: acc) simp_all

text \<open>
  The response for chunk \<open>i\<close> carries the starting text followed by the deltas of the
  chunks up to and including \<open>i\<close>. The accumulator is generalised, since every step of
  the loop changes it.
\<close>

lemma streamLoop_nth:
  "i < length stream \<Longrightarrow>
     streamLoop acc stream ! i =
       chunkResponse (acc @ concat (map chunkDelta (take (Suc i) stream))) (stream ! i)"
proof (induction stream arbitrary: acc i)
  case Nil
  then show ?case by simp
next
  case (Cons chunk rest)
  show ?case
  proof (cases i)
    case 0
    then show ?thesis by simp
  next
    case (Suc k)
    with Cons.prems have "k < length rest" by simp
    from Cons.IH [OF this, of "acc @ chunkDelta chunk"] Suc show ?thesis by simp
  qed
qed

text \<open>
  C2. When the provider delivers the chunks \<open>stream\<close>, \<open>generateContentStream\<close> yields one
  response for each chunk, and response \<open>i\<close> has one candidate with one text part, whose
  text is the concatenation of the deltas of chunks \<open>0\<close> to \<open>i\<close>: the whole text so far,
  not the delta. Hence the text of an earlier response is a prefix of the text of every
  later one.
\<close>

theorem stream_texts_accumulate:
  assumes "create (createParams request True) = Inr stream"
  shows "\<exists>rs. generateContentStream create request = Inr rs
           \<and> length rs = length stream
           \<and> (\<forall>i < length stream.
                 responseTexts (rs ! i) = [[Some (concat (map chunkDelta (take (Suc i) stream)))]])
           \<and> (\<forall>i j. i \<le> j \<and> j < length stream \<longrightarrow>
                 (\<exists>s t. responseTexts (rs ! i) = [[Some s]] \<and> responseTexts (rs ! j) = [[Some t]]
                        \<and> prefix s t))"
proof -
  let ?rs = "streamLoop [] stream"
  let ?text = "\<lambda>i. concat (map chunkDelta (take (Suc i) stream))"
  have run: "generateContentStream create request = Inr ?rs"
    using assms by (simp add: generateContentStream_def)
  have texts: "responseTexts (?rs ! i) = [[Some (?text i)]]" if "i < length stream" for i
    using that by (simp add: streamLoop_nth chunkResponse_texts)
  have mono: "prefix (?text i) (?text j)" if "i \<le> j" for i j
  proof -
    from that have "take (Suc i) stream = take (Suc i) (take (Suc j) stream)"
      by (simp add: min_def)
    then have "prefix (take (Suc i) stream) (take (Suc j) stream)"
      by (metis take_is_prefix)
    then obtain zs where "take (Suc j) stream = take (Suc i) stream @ zs"
      by (auto simp: prefix_def)
    then show ?thesis by (simp add: prefix_def)
  qed
  have "\<exists>s t. responseTexts (?rs ! i) = [[Some s]] \<and> responseTexts (?rs ! j) = [[Some t]]
          \<and> prefix s t" if "i \<le> j" "j < length stream" for i j
    using that texts [of i] texts [of j] mono [of i j] by simp
  with run texts show ?thesis
    by (simp add: length_streamLoop)
qed

text \<open>
  The third scenario: the deltas \<^verbatim>\<open>"The"\<close>, \<^verbatim>\<open>" answer"\<close>, \<^verbatim>\<open>" is 4"\<close> give the texts
  \<^verbatim>\<open>"The"\<close>, \<^verbatim>\<open>"The answer"\<close>, \<^verbatim>\<open>"The answer is 4"\<close>.
\<close>

theorem stream_texts_accumulate_witness:
  "\<exists>rs. generateContentStream (\<lambda>p. Inr example_stream) example_request = Inr rs
       \<and> length rs = 3
       \<and> responseTexts (rs ! 0) = [[Some ''The'']]
       \<and> responseTexts (rs ! 1) = [[Some ''The answer'']]
       \<and> responseTexts (rs ! 2) = [[Some ''The answer is 4'']]"
proof -
  have "(\<lambda>p. Inr example_stream) (createParams example_request True) = Inr example_stream"
    by simp
  from stream_texts_accumulate [of "\<lambda>p. Inr example_stream" example_request example_stream, OF this]
  obtain rs where run: "generateContentStream (\<lambda>p. Inr example_stream) example_request = Inr rs"
    and len: "length rs = length example_stream"
    and texts: "\<forall>i < length example_stream.
          responseTexts (rs ! i) = [[Some (concat (map chunkDelta (take (Suc i) example_stream)))]]"
    by blast
  have n: "length example_stream = 3"
    by (simp add: example_stream_def)
  from texts n
  have "responseTexts (rs ! 0) = [[Some (concat (map chunkDelta (take (Suc 0) example_stream)))]]"
    and "responseTexts (rs ! 1) = [[Some (concat (map chunkDelta (take (Suc 1) example_stream)))]]"
    and "responseTexts (rs ! 2) = [[Some (concat (map chunkDelta (take (Suc 2) example_stream)))]]"
    by simp_all
  then have "responseTexts (rs ! 0) = [[Some ''The'']]"
    and "responseTexts (rs ! 1) = [[Some ''The answer'']]"
    and "responseTexts (rs ! 2) = [[Some ''The answer is 4'']]"
    by (simp_all add: example_stream_def textChunk_def chunkDelta_def)
  with run len n show ?thesis by simp
qed

section \<open>Properties of the Message Translator\<close>

text \<open>The loop that fills \<^verbatim>\<open>textParts\<close> keeps exactly the texts of the text-bearing parts.\<close>

lemma textParts_map_filter: "textParts ps = List.map_filter textBearing ps"
  by (induction ps rule: textParts.induct) (simp_all add: List.map_filter_simps split: option.splits)

lemma translateContents_map_filter: "translateContents cs = List.map_filter turnMessage cs"
  by (induction cs)
     (simp_all add: List.map_filter_simps turnMessage_def turnTexts_def textParts_map_filter
        split: option.splits)

lemma map_filter_turnMessage_origin:
  "m \<in> set (List.map_filter turnMessage xs) \<Longrightarrow>
     \<exists>t \<in> set xs. turnTexts t \<noteq> [] \<and> turnMessage t = Some m"
proof (induction xs)
  case Nil
  then show ?case by (simp add: List.map_filter_simps)
next
  case (Cons x xs)
  show ?case
  proof (cases "turnMessage x")
    case None
    with Cons show ?thesis by (simp add: List.map_filter_simps)
  next
    case (Some y)
    then have "turnTexts x \<noteq> []"
      by (auto simp: turnMessage_def split: if_splits)
    with Cons Some show ?thesis by (auto simp: List.map_filter_simps)
  qed
qed

text \<open>
  C3. For a conversation given as a list of turns (the first of which carries a role,
  which is how the source tells a list of turns from a list of parts), and for a single
  turn with a role, \<open>convertToOpenAIMessages\<close> returns, in order, the message of each turn
  that has one: a \<^verbatim>\<open>user\<close> turn with a text part gives one \<^verbatim>\<open>user\<close> message, a \<^verbatim>\<open>model\<close> turn
  with a text part one \<^verbatim>\<open>assistant\<close> message, the content being the newline-join of the
  turn's text parts; a turn with no text-bearing part gives no message and no error. So
  every message returned is the message of a turn that has a text part.
\<close>

theorem translator_turn_messages:
  "convertToOpenAIMessages (ManyContents []) = []
   \<and> (role c \<noteq> None \<longrightarrow>
        convertToOpenAIMessages (ManyContents (c # cs)) = List.map_filter turnMessage (c # cs)
        \<and> (\<forall>m \<in> set (convertToOpenAIMessages (ManyContents (c # cs))).
              \<exists>t \<in> set (c # cs). turnTexts t \<noteq> [] \<and> turnMessage t = Some m))
   \<and> (role single \<noteq> None \<longrightarrow>
        convertToOpenAIMessages (OneContent single) = List.map_filter turnMessage [single])
   \<and> (role u = Some ''user'' \<and> turnTexts u \<noteq> [] \<longrightarrow>
        turnMessage u = Some \<lparr> msg_role = User, msg_content = join newline (turnTexts u) \<rparr>)
   \<and> (role a = Some ''model'' \<and> turnTexts a \<noteq> [] \<longrightarrow>
        turnMessage a = Some \<lparr> msg_role = Assistant, msg_content = join newline (turnTexts a) \<rparr>)
   \<and> (turnTexts e = [] \<longrightarrow> turnMessage e = None)"
proof -
  have many: "convertToOpenAIMessages (ManyContents (c # cs)) = List.map_filter turnMessage (c # cs)"
    if "role c \<noteq> None"
    using that by (simp add: convertToOpenAIMessages_def translateContents_map_filter)
  have origin: "\<forall>m \<in> set (convertToOpenAIMessages (ManyContents (c # cs))).
                  \<exists>t \<in> set (c # cs). turnTexts t \<noteq> [] \<and> turnMessage t = Some m"
    if "role c \<noteq> None"
    unfolding many [OF that] using map_filter_turnMessage_origin by blast
  have one: "convertToOpenAIMessages (OneContent single) = List.map_filter turnMessage [single]"
    if "role single \<noteq> None"
    using that by (simp add: convertToOpenAIMessages_def translateContents_map_filter)
  have empty: "convertToOpenAIMessages (ManyContents []) = []"
    by (simp add: convertToOpenAIMessages_def)
  have user: "turnMessage u = Some \<lparr> msg_role = User, msg_content = join newline (turnTexts u) \<rparr>"
    if "role u = Some ''user'' \<and> turnTexts u \<noteq> []"
    using that by (simp add: turnMessage_def)
  have model: "turnMessage a = Some \<lparr> msg_role = Assistant, msg_content = join newline (turnTexts a) \<rparr>"
    if "role a = Some ''model'' \<and> turnTexts a \<noteq> []"
    using that by (simp add: turnMessage_def)
  have skipped: "turnMessage e = None" if "turnTexts e = []"
    using that by (simp add: turnMessage_def)
  from empty many origin one user model skipped show ?thesis
    by blast
qed

text \<open>
  A conversation of four turns, of which the third has only inline data and the fourth
  only an empty text: two messages come out.
\<close>

theorem translator_turn_messages_witness:
  "convertToOpenAIMessages (ManyContents example_conversation) =
     [\<lparr> msg_role = User, msg_content = ''Hello'' @ newline @ ''world'' \<rparr>,
      \<lparr> msg_role = Assistant, msg_content = ''Hi'' \<rparr>]
   \<and> convertToOpenAIMessages (OneContent (turn ''model'' [textPart ''Hi''])) =
     [\<lparr> msg_role = Assistant, msg_content = ''Hi'' \<rparr>]
   \<and> turnMessage (turn ''user'' [dataPart ''png'']) = None"
proof -
  let ?u = "turn ''user'' [PString ''Hello'', textPart ''world'']"
  let ?a = "turn ''model'' [textPart ''Hi'']"
  let ?e = "turn ''user'' [dataPart ''png'']"
  let ?z = "turn ''model'' [textPart []]"
  have texts: "turnTexts ?u = [''Hello'', ''world'']" "turnTexts ?a = [''Hi'']" "turnTexts ?e = []"
    "turnTexts ?z = []"
    by (simp_all add: turnTexts_def turn_def textPart_def dataPart_def List.map_filter_simps)
  have roles: "role ?u = Some ''user''" "role ?a = Some ''model''"
    by (simp_all add: turn_def)
  note data = translator_turn_messages [of ?u "[?a, ?e, ?z]" ?a ?u ?a ?e]
  note empty = translator_turn_messages [of ?u "[?a, ?e, ?z]" ?a ?u ?a ?z]
  from data empty texts roles show ?thesis
    by (simp add: List.map_filter_simps example_conversation_def)
qed

text \<open>
  Outside that domain: the source takes an array whose first element has no \<^verbatim>\<open>role\<close> key
  for an array of parts, and none of these "parts" has a \<^verbatim>\<open>text\<close>; no message comes out,
  whatever the later elements are.
\<close>

lemma textParts_contentAsPart: "textParts (map contentAsPart cs) = []"
  by (induction cs) (simp_all add: contentAsPart_def)

lemma roleless_first_turn_no_messages:
  "role c = None \<Longrightarrow> convertToOpenAIMessages (ManyContents (c # cs)) = []"
  using textParts_contentAsPart [of "c # cs"]
  by (simp add: convertToOpenAIMessages_def del: list.map)

text \<open>Neither early return nor the loop ever produces a message of role \<^verbatim>\<open>system\<close>.\<close>

lemma translateContents_no_system: "systemMessages (translateContents cs) = []"
  by (induction cs) (simp_all add: systemMessages_def split: option.splits)

lemma normalizeContents_Inl:
  "normalizeContents u = Inl ms \<Longrightarrow> \<exists>s. ms = [\<lparr> msg_role = User, msg_content = s \<rparr>]"
  by (cases u rule: normalizeContents.cases) (auto split: if_splits)

lemma convert_no_system: "systemMessages (convertToOpenAIMessages u) = []"
proof (cases "normalizeContents u")
  case (Inl ms)
  with normalizeContents_Inl [OF Inl] show ?thesis
    by (auto simp: convertToOpenAIMessages_def systemMessages_def)
next
  case (Inr cs)
  then show ?thesis
    by (simp add: convertToOpenAIMessages_def translateContents_no_system)
qed

text \<open>
  C4. A text \<open>s\<close> given as a plain string, as a single part, as a list of one part or as
  a turn of one part resolves to \<open>s\<close> in each encoding; a single part resolves as the
  list holding it does, and a list of parts and a turn with these parts both resolve to
  the newline-join of their text-bearing elements. The message list that
  \<open>generateContent\<close> (\<open>streaming = False\<close>) and \<open>generateContentStream\<close>
  (\<open>streaming = True\<close>) hand to the provider is the translated conversation, preceded by
  one \<^verbatim>\<open>system\<close> message carrying the resolved text when that text is not empty; it then
  holds exactly that one \<^verbatim>\<open>system\<close> message, and none when the text is empty.
\<close>

theorem system_instruction_first_message:
  "systemText (Some (SysPart (PString s))) = s
   \<and> systemText (Some (SysPart (PPart \<lparr> part_text = Some s, part_inlineData = d \<rparr>))) = s
   \<and> systemText (Some (SysParts [PPart \<lparr> part_text = Some s, part_inlineData = d \<rparr>])) = s
   \<and> systemText (Some (SysContent
         \<lparr> role = r, parts = Some [PPart \<lparr> part_text = Some s, part_inlineData = d \<rparr>] \<rparr>)) = s
   \<and> systemText (Some (SysPart p)) = systemText (Some (SysParts [p]))
   \<and> systemText (Some (SysParts ps)) = join newline (List.map_filter textBearing ps)
   \<and> systemText (Some (SysContent \<lparr> role = r, parts = Some ps \<rparr>))
        = join newline (List.map_filter textBearing ps)
   \<and> create_messages (createParams request streaming) =
        (if systemText (Option.bind (config request) systemInstruction) \<noteq> []
         then \<lparr> msg_role = System,
                msg_content = systemText (Option.bind (config request) systemInstruction) \<rparr>
                # convertToOpenAIMessages (contents request)
         else convertToOpenAIMessages (contents request))
   \<and> systemMessages (create_messages (createParams request streaming)) =
        (if systemText (Option.bind (config request) systemInstruction) \<noteq> []
         then [\<lparr> msg_role = System,
                 msg_content = systemText (Option.bind (config request) systemInstruction) \<rparr>]
         else [])
   \<and> generateContent create request =
        map_sum id convertToGeminiResponse (create (createParams request False))
   \<and> generateContentStream createStream request =
        map_sum id (streamLoop []) (createStream (createParams request True))"
proof -
  have single: "systemText (Some (SysPart p)) = systemText (Some (SysParts [p]))"
    by (cases p) (simp_all split: option.splits)
  have msgs: "create_messages (createParams request streaming) =
        (if systemText (Option.bind (config request) systemInstruction) \<noteq> []
         then \<lparr> msg_role = System,
                msg_content = systemText (Option.bind (config request) systemInstruction) \<rparr>
                # convertToOpenAIMessages (contents request)
         else convertToOpenAIMessages (contents request))"
    by (simp add: createParams_def requestMessages_def Let_def)
  have sys: "systemMessages (create_messages (createParams request streaming)) =
        (if systemText (Option.bind (config request) systemInstruction) \<noteq> []
         then [\<lparr> msg_role = System,
                 msg_content = systemText (Option.bind (config request) systemInstruction) \<rparr>]
         else [])"
    unfolding msgs using convert_no_system [of "contents request"]
    by (simp add: systemMessages_def)
  have gen: "generateContent create request =
        map_sum id convertToGeminiResponse (create (createParams request False))"
    by (simp add: generateContent_def split: sum.splits)
  have str: "generateContentStream createStream request =
        map_sum id (streamLoop []) (createStream (createParams request True))"
    by (simp add: generateContentStream_def split: sum.splits)
  have list: "systemText (Some (SysParts ps)) = join newline (List.map_filter textBearing ps)"
    and turn: "systemText (Some (SysContent \<lparr> role = r, parts = Some ps \<rparr>))
        = join newline (List.map_filter textBearing ps)"
    by (simp_all add: textParts_map_filter)
  have "systemText (Some (SysPart (PString s))) = s"
    and "systemText (Some (SysPart (PPart \<lparr> part_text = Some s, part_inlineData = d \<rparr>))) = s"
    and "systemText (Some (SysParts [PPart \<lparr> part_text = Some s, part_inlineData = d \<rparr>])) = s"
    and "systemText (Some (SysContent
         \<lparr> role = r, parts = Some [PPart \<lparr> part_text = Some s, part_inlineData = d \<rparr>] \<rparr>)) = s"
    by simp_all
  with single list turn msgs sys gen str show ?thesis
    by (intro conjI)
qed

text \<open>
  The first scenario: one \<^verbatim>\<open>user\<close> turn \<^verbatim>\<open>"Hello"\<close> with the system instruction
  \<^verbatim>\<open>"Be terse"\<close>; without a configuration the same request has no \<^verbatim>\<open>system\<close> message.
\<close>

theorem system_instruction_first_message_witness:
  "create_messages (createParams example_request False) =
     [\<lparr> msg_role = System, msg_content = ''Be terse'' \<rparr>,
      \<lparr> msg_role = User, msg_content = ''Hello'' \<rparr>]
   \<and> systemMessages (create_messages (createParams example_request True)) =
     [\<lparr> msg_role = System, msg_content = ''Be terse'' \<rparr>]
   \<and> create_messages (createParams (example_request\<lparr> config := None \<rparr>) True) =
     [\<lparr> msg_role = User, msg_content = ''Hello'' \<rparr>]"
proof -
  have conv: "convertToOpenAIMessages (contents example_request) =
      [\<lparr> msg_role = User, msg_content = ''Hello'' \<rparr>]"
    by (simp add: example_request_def convertToOpenAIMessages_def turn_def textPart_def)
  have sys: "Option.bind (config example_request) systemInstruction
      = Some (SysPart (PString ''Be terse''))"
    by (simp add: example_request_def)
  note plain = system_instruction_first_message
    [where request = example_request and streaming = False and s = "''Be terse''"]
  note streamed = system_instruction_first_message
    [where request = example_request and streaming = True and s = "''Be terse''"]
  note bare = system_instruction_first_message
    [where request = "example_request\<lparr> config := None \<rparr>" and streaming = True]
  from plain streamed bare conv sys show ?thesis
    by (simp add: systemMessages_def)
qed

text \<open>
  An array of plain strings does not always become a single \<^verbatim>\<open>user\<close> message: not the
  empty array. The test \<^verbatim>\<open>contentsUnion.length > 0\<close> sends it to the branch that wraps
  it into a \<^verbatim>\<open>user\<close> turn without parts, and that turn gives no message.
\<close>

theorem empty_string_array_no_message:
  "convertToOpenAIMessages (ManyParts (map PString [])) = []
   \<and> length (convertToOpenAIMessages (ManyParts (map PString []))) \<noteq> 1"
  by (simp add: convertToOpenAIMessages_def)

text \<open>
  C8, amended. A bare string \<open>s\<close> becomes exactly one message, of role \<^verbatim>\<open>user\<close> and content
  \<open>s\<close>, and with no system instruction the provider's message list is that one message. An
  array of plain strings that is not empty becomes a single \<^verbatim>\<open>user\<close> message, the strings
  joined by newlines; the empty array gives no message. A bare \<^verbatim>\<open>Part\<close> and an array of
  \<^verbatim>\<open>Part\<close>s are wrapped into one \<^verbatim>\<open>user\<close> turn, which is then translated as any turn is.
\<close>

theorem bare_inputs_normalized:
  "convertToOpenAIMessages (OnePart (PString s)) = [\<lparr> msg_role = User, msg_content = s \<rparr>]
   \<and> requestMessages \<lparr> model = m, contents = OnePart (PString s), config = None \<rparr>
        = [\<lparr> msg_role = User, msg_content = s \<rparr>]
   \<and> requestMessages \<lparr> model = m, contents = OnePart (PString s),
                        config = Some (cfg\<lparr> systemInstruction := None \<rparr>) \<rparr>
        = [\<lparr> msg_role = User, msg_content = s \<rparr>]
   \<and> (ss \<noteq> [] \<longrightarrow>
        convertToOpenAIMessages (ManyParts (map PString ss))
          = [\<lparr> msg_role = User, msg_content = join newline ss \<rparr>])
   \<and> convertToOpenAIMessages (ManyParts (map PString [])) = []
   \<and> normalizeContents (OnePart (PPart p)) = Inr [\<lparr> role = Some ''user'', parts = Some [PPart p] \<rparr>]
   \<and> convertToOpenAIMessages (OnePart (PPart p))
        = translateContents [\<lparr> role = Some ''user'', parts = Some [PPart p] \<rparr>]
   \<and> normalizeContents (ManyParts (PPart p # ps))
        = Inr [\<lparr> role = Some ''user'', parts = Some (PPart p # ps) \<rparr>]
   \<and> convertToOpenAIMessages (ManyParts (PPart p # ps))
        = translateContents [\<lparr> role = Some ''user'', parts = Some (PPart p # ps) \<rparr>]
   \<and> normalizeContents (ManyParts []) = Inr [\<lparr> role = Some ''user'', parts = Some [] \<rparr>]"
proof -
  have strings: "convertToOpenAIMessages (ManyParts (map PString ss))
          = [\<lparr> msg_role = User, msg_content = join newline ss \<rparr>]" if "ss \<noteq> []"
  proof -
    from that obtain x xs where ss: "ss = x # xs" by (cases ss) auto
    have "map toString (map PString ss) = ss" by (induction ss) simp_all
    with ss show ?thesis
      by (simp add: convertToOpenAIMessages_def)
  qed
  then show ?thesis
    by (simp add: convertToOpenAIMessages_def requestMessages_def)
qed

text \<open>
  The second scenario, the bare string \<^verbatim>\<open>"Explain recursion"\<close>, and an array of two strings.
\<close>

theorem bare_inputs_normalized_witness:
  "convertToOpenAIMessages (ManyParts (map PString [''a'', ''b''])) =
     [\<lparr> msg_role = User, msg_content = ''a'' @ newline @ ''b'' \<rparr>]
   \<and> requestMessages \<lparr> model = ''gpt'', contents = OnePart (PString ''Explain recursion''),
                        config = None \<rparr>
       = [\<lparr> msg_role = User, msg_content = ''Explain recursion'' \<rparr>]"
proof -
  have "[''a'', ''b''] \<noteq> []" by simp
  with bare_inputs_normalized
    [where ss = "[''a'', ''b'']" and s = "''Explain recursion''" and m = "''gpt''"]
  show ?thesis by simp
qed

text \<open>
  An array that starts with a string and goes on with a \<^verbatim>\<open>Part\<close> is neither an array of
  plain strings nor an array of \<^verbatim>\<open>Part\<close>s; the source takes the string branch, and \<^verbatim>\<open>join\<close>
  renders the object.
\<close>

lemma string_first_array_joins_objects:
  "convertToOpenAIMessages (ManyParts [PString ''a'', textPart ''b'']) =
     [\<lparr> msg_role = User, msg_content = ''a'' @ newline @ ''[object Object]'' \<rparr>]"
  by (simp add: convertToOpenAIMessages_def textPart_def)

text \<open>
  Parts with an empty text change nothing: not in the loop that fills \<^verbatim>\<open>textParts\<close>, and so
  not in the translation of a turn.
\<close>

lemma textParts_dropEmptyText: "textParts (dropEmptyText ps) = textParts ps"
  by (induction ps rule: textParts.induct)
     (simp_all add: dropEmptyText_def emptyText_def split: option.splits)

lemma textParts_all_empty: "\<forall>p \<in> set ps. emptyText p \<Longrightarrow> textParts ps = []"
  by (induction ps rule: textParts.induct) (simp_all add: emptyText_def split: option.splits)

lemma translateContents_withoutEmptyText:
  "translateContents (map withoutEmptyText cs) = translateContents cs"
  by (induction cs)
     (simp_all add: withoutEmptyText_def textParts_dropEmptyText split: option.splits)

lemma role_withoutEmptyText: "role (withoutEmptyText c) = role c"
  by (simp add: withoutEmptyText_def)

lemma contentAsPart_withoutEmptyText: "contentAsPart (withoutEmptyText c) = contentAsPart c"
  by (simp add: contentAsPart_def)

lemma normalize_ManyContents_withoutEmptyText:
  "normalizeContents (ManyContents (map withoutEmptyText cs)) =
     (case normalizeContents (ManyContents cs) of
        Inl ms \<Rightarrow> Inl ms
      | Inr xs \<Rightarrow> if cs \<noteq> [] \<and> role (hd cs) \<noteq> None then Inr (map withoutEmptyText xs) else Inr xs)"
  by (cases cs) (simp_all add: role_withoutEmptyText contentAsPart_withoutEmptyText)

lemma convert_ManyContents_withoutEmptyText:
  "convertToOpenAIMessages (ManyContents (map withoutEmptyText cs)) =
     convertToOpenAIMessages (ManyContents cs)"
  unfolding convertToOpenAIMessages_def normalize_ManyContents_withoutEmptyText
  by (cases cs) (simp_all add: translateContents_withoutEmptyText [of "_ # _", simplified])

lemma convert_OneContent_withoutEmptyText:
  "convertToOpenAIMessages (OneContent (withoutEmptyText c)) =
     convertToOpenAIMessages (OneContent c)"
proof (cases "role c = None")
  case True
  then show ?thesis
    by (simp add: convertToOpenAIMessages_def role_withoutEmptyText contentAsPart_withoutEmptyText)
next
  case False
  with translateContents_withoutEmptyText [of "[c]"] show ?thesis
    by (simp add: convertToOpenAIMessages_def role_withoutEmptyText)
qed

text \<open>
  Inside turns and in the system instruction, a \<^verbatim>\<open>Part\<close> whose \<^verbatim>\<open>text\<close> is the empty string
  counts as absent. Removing such parts changes neither the texts collected from a list of parts, nor the messages translated
  from a list of turns or from a single turn, nor the system text resolved from a list of
  parts or from a turn; a turn all of whose parts have an empty text gives no message; a
  system instruction that is one such part resolves to the empty text, so no system
  message; and \<open>embedContent\<close>, which extracts its text through the same translator, behaves
  the same with and without such parts.
\<close>

lemma empty_text_part_absent_in_turns:
  "textParts (dropEmptyText ps) = textParts ps
   \<and> convertToOpenAIMessages (ManyContents (map withoutEmptyText cs))
        = convertToOpenAIMessages (ManyContents cs)
   \<and> convertToOpenAIMessages (OneContent (withoutEmptyText c))
        = convertToOpenAIMessages (OneContent c)
   \<and> ((\<forall>p \<in> set qs. emptyText p) \<longrightarrow>
        translateContents (\<lparr> role = r, parts = Some qs \<rparr> # rest) = translateContents rest)
   \<and> systemText (Some (SysParts (dropEmptyText ps))) = systemText (Some (SysParts ps))
   \<and> systemText (Some (SysContent (withoutEmptyText c))) = systemText (Some (SysContent c))
   \<and> (emptyText e \<longrightarrow> systemText (Some (SysPart e)) = [])
   \<and> embedContent create (request\<lparr> embed_contents := OneContent (withoutEmptyText c) \<rparr>)
        = embedContent create (request\<lparr> embed_contents := OneContent c \<rparr>)"
proof -
  have turn: "translateContents (\<lparr> role = r, parts = Some qs \<rparr> # rest) = translateContents rest"
    if "\<forall>p \<in> set qs. emptyText p"
    using textParts_all_empty [OF that] by simp
  have sysc: "systemText (Some (SysContent (withoutEmptyText c))) = systemText (Some (SysContent c))"
    by (simp add: withoutEmptyText_def textParts_dropEmptyText split: option.splits)
  have sysp: "systemText (Some (SysPart e)) = []" if "emptyText e"
    using that by (cases e) (simp_all add: emptyText_def)
  have emb: "embedContent create (request\<lparr> embed_contents := OneContent (withoutEmptyText c) \<rparr>)
        = embedContent create (request\<lparr> embed_contents := OneContent c \<rparr>)"
    by (simp add: embedContent_def convert_OneContent_withoutEmptyText)
  from turn sysc sysp emb show ?thesis
    by (simp add: textParts_dropEmptyText convert_ManyContents_withoutEmptyText
          convert_OneContent_withoutEmptyText)
qed

text \<open>
  A \<^verbatim>\<open>user\<close> turn of two empty texts before a \<^verbatim>\<open>model\<close> turn is passed over, and an empty
  text as system instruction resolves to nothing.
\<close>

lemma empty_text_part_absent_in_turns_example:
  "translateContents [turn ''user'' [textPart [], textPart []], turn ''model'' [textPart ''Hi'']]
     = translateContents [turn ''model'' [textPart ''Hi'']]
   \<and> systemText (Some (SysPart (textPart []))) = []"
proof -
  have "\<forall>p \<in> set [textPart [], textPart []]. emptyText p" and "emptyText (textPart [])"
    by (simp_all add: emptyText_def textPart_def)
  with empty_text_part_absent_in_turns [where qs = "[textPart [], textPart []]" and r = "Some ''user''"
      and rest = "[turn ''model'' [textPart ''Hi'']]" and e = "textPart []"]
  show ?thesis by (simp add: turn_def)
qed

text \<open>
  The same holds for a conversation given as an array of \<^verbatim>\<open>Part\<close> objects, without strings:
  with or without the empty texts, the array is wrapped into one \<^verbatim>\<open>user\<close> turn.
\<close>

lemma normalize_object_parts:
  "\<forall>q \<in> set ps. \<exists>p. q = PPart p \<Longrightarrow>
     normalizeContents (ManyParts ps) = Inr [\<lparr> role = Some ''user'', parts = Some ps \<rparr>]"
  by (cases ps rule: textParts.cases) auto

lemma empty_text_part_absent_in_object_arrays:
  assumes "\<forall>q \<in> set ps. \<exists>p. q = PPart p"
  shows "convertToOpenAIMessages (ManyParts (dropEmptyText ps)) =
           convertToOpenAIMessages (ManyParts ps)"
proof -
  from assms have "\<forall>q \<in> set (dropEmptyText ps). \<exists>p. q = PPart p"
    by (simp add: dropEmptyText_def)
  from normalize_object_parts [OF this] normalize_object_parts [OF assms] show ?thesis
    by (simp add: convertToOpenAIMessages_def textParts_dropEmptyText)
qed

text \<open>
  C10. That a \<^verbatim>\<open>Part\<close> whose \<^verbatim>\<open>text\<close> is the empty string is treated exactly as if it were
  absent holds inside turns and in the system instruction (the lemmas above), and fails
  for a conversation given as an array that has a string before a \<^verbatim>\<open>Part\<close>. The branch
  commented \<^verbatim>\<open>Check if it's all strings\<close> tests only \<^verbatim>\<open>contentsUnion[0]\<close> and joins the whole
  array as strings, so a \<^verbatim>\<open>Part\<close> behind a leading string never reaches the loop that
  drops empty texts: \<^verbatim>\<open>['a', {text: ''}]\<close> gives the content \<^verbatim>\<open>a\n[object Object]\<close>, where
  \<^verbatim>\<open>['a']\<close> gives \<^verbatim>\<open>a\<close>; and \<^verbatim>\<open>[{text: ''}, 'a', {text: 'b'}]\<close>, which starts with an
  object and goes through the loop, gives \<^verbatim>\<open>a\nb\<close>, where the same array without the
  empty part gives \<^verbatim>\<open>a\n[object Object]\<close>.
\<close>

theorem empty_text_part_in_string_first_array:
  "convertToOpenAIMessages (ManyParts [PString ''a'', textPart []]) =
     [\<lparr> msg_role = User, msg_content = ''a'' @ newline @ ''[object Object]'' \<rparr>]
   \<and> convertToOpenAIMessages (ManyParts (dropEmptyText [PString ''a'', textPart []])) =
     [\<lparr> msg_role = User, msg_content = ''a'' \<rparr>]
   \<and> convertToOpenAIMessages (ManyParts [textPart [], PString ''a'', textPart ''b'']) =
     [\<lparr> msg_role = User, msg_content = ''a'' @ newline @ ''b'' \<rparr>]
   \<and> convertToOpenAIMessages (ManyParts (dropEmptyText [textPart [], PString ''a'', textPart ''b''])) =
     [\<lparr> msg_role = User, msg_content = ''a'' @ newline @ ''[object Object]'' \<rparr>]
   \<and> convertToOpenAIMessages (ManyParts [PString ''a'', textPart []])
       \<noteq> convertToOpenAIMessages (ManyParts (dropEmptyText [PString ''a'', textPart []]))
   \<and> convertToOpenAIMessages (ManyParts [textPart [], PString ''a'', textPart ''b''])
       \<noteq> convertToOpenAIMessages
           (ManyParts (dropEmptyText [textPart [], PString ''a'', textPart ''b'']))"
  by (simp add: convertToOpenAIMessages_def dropEmptyText_def emptyText_def textPart_def
        newline_def)

section \<open>Properties of the Token Estimator\<close>

lemma join_empty_sep: "join [] xs = concat xs"
  by (induction xs rule: induct_list012) simp_all

lemma ceiling_quarter: "\<lceil>real n / 4\<rceil> = (int n + 3) div 4"
proof -
  have "real n / 4 = real_of_int (int n) / real_of_int 4" by simp
  then have "\<lceil>real n / 4\<rceil> = - ((- int n) div 4)"
    by (simp only: ceiling_divide_eq_div)
  also have "\<dots> = (int n + 3) div 4" by presburger
  finally show ?thesis .
qed

text \<open>
  C7. \<open>countTokens\<close> returns the ceiling of a quarter of the total number of characters
  of the translated message bodies (their concatenation has no separator, so its length
  is the sum of their lengths); in integers, that number plus 3, divided by 4. For 40
  characters the result is 10. The function has no failing branch: on every request it
  returns this value.
\<close>

theorem count_tokens_ceiling:
  "totalTokens (countTokens request) =
     \<lceil>real (sum_list (map (length \<circ> msg_content)
                         (convertToOpenAIMessages (count_contents request)))) / 4\<rceil>
   \<and> totalTokens (countTokens request) =
     (int (sum_list (map (length \<circ> msg_content)
                         (convertToOpenAIMessages (count_contents request)))) + 3) div 4
   \<and> (sum_list (map (length \<circ> msg_content) (convertToOpenAIMessages (count_contents request))) = 40
        \<longrightarrow> totalTokens (countTokens request) = 10)"
proof -
  let ?L = "sum_list (map (length \<circ> msg_content) (convertToOpenAIMessages (count_contents request)))"
  have total: "totalTokens (countTokens request) = \<lceil>real ?L / 4\<rceil>"
    by (simp add: countTokens_def Let_def join_empty_sep length_concat comp_def)
  from total ceiling_quarter [of ?L] show ?thesis by auto
qed

text \<open>Two messages of 24 and 16 characters: 40 in all, 10 tokens.\<close>

theorem count_tokens_ceiling_witness:
  "totalTokens (countTokens \<lparr> count_model = ''gpt'', count_contents = ManyContents
      [turn ''user'' [textPart ''Please explain recursion''],
       turn ''model'' [textPart ''It calls itself.'']] \<rparr>) = 10"
proof -
  let ?r = "\<lparr> count_model = ''gpt'', count_contents = ManyContents
      [turn ''user'' [textPart ''Please explain recursion''],
       turn ''model'' [textPart ''It calls itself.'']] \<rparr>"
  have "sum_list (map (length \<circ> msg_content) (convertToOpenAIMessages (count_contents ?r))) = 40"
    by (simp add: convertToOpenAIMessages_def turn_def textPart_def)
  with count_tokens_ceiling [of ?r] show ?thesis by simp
qed

section \<open>Properties of the Embedding Adapter\<close>

text \<open>
  C9. Whatever the request (however many text parts its content has), when the
  provider's embedding call returns at least one vector, \<open>embedContent\<close> returns a result
  whose \<open>embeddings\<close> is a list of exactly one element, holding the first vector the
  provider returned; and every result that \<open>embedContent\<close> returns has this shape.
\<close>

theorem embed_content_single_vector:
  "(create \<lparr> embedding_model = ''text-embedding-3-small'',
             embedding_input =
               join newline (map msg_content (convertToOpenAIMessages (embed_contents request))) \<rparr>
       = Inr response \<and> data response = d # ds
     \<longrightarrow> embedContent create request
           = Inr \<lparr> embeddings = Some [\<lparr> embedding_values = embedding d \<rparr>] \<rparr>)
   \<and> (embedContent create' request' = Inr result
     \<longrightarrow> (\<exists>response' d' ds'.
            create' \<lparr> embedding_model = ''text-embedding-3-small'',
                      embedding_input =
                        join newline (map msg_content
                          (convertToOpenAIMessages (embed_contents request'))) \<rparr> = Inr response'
            \<and> data response' = d' # ds'
            \<and> embeddings result = Some [\<lparr> embedding_values = embedding d' \<rparr>]))"
  by (auto simp: embedContent_def Let_def split: sum.splits list.splits)

text \<open>A content of three text parts, and a provider that answers with one vector.\<close>

theorem embed_content_single_vector_witness:
  "embedContent (\<lambda>p. Inr \<lparr> data = [\<lparr> embedding = [1 / 2, 0, - 1] \<rparr>] \<rparr>)
      \<lparr> embed_model = ''e'', embed_contents = OneContent
           (turn ''user'' [textPart ''one'', textPart ''two'', textPart ''three'']) \<rparr>
     = Inr \<lparr> embeddings = Some [\<lparr> embedding_values = [1 / 2, 0, - 1] \<rparr>] \<rparr>
   \<and> (\<exists>d :: Embedding.
          embeddings \<lparr> embeddings = Some [\<lparr> embedding_values = [1 / 2, 0, - 1] \<rparr>] \<rparr>
            = Some [\<lparr> embedding_values = embedding d \<rparr>])"
proof -
  let ?create = "\<lambda>p :: EmbeddingCreateParams. Inr \<lparr> data = [\<lparr> embedding = [1 / 2, 0, - 1] \<rparr>] \<rparr>
      :: error + CreateEmbeddingResponse"
  let ?request = "\<lparr> embed_model = ''e'', embed_contents = OneContent
           (turn ''user'' [textPart ''one'', textPart ''two'', textPart ''three'']) \<rparr>"
  let ?result = "\<lparr> embeddings = Some [\<lparr> embedding_values = [1 / 2, 0, - 1] \<rparr>] \<rparr>"
  note fact = embed_content_single_vector [where create = ?create and request = ?request
      and response = "\<lparr> data = [\<lparr> embedding = [1 / 2, 0, - 1] \<rparr>] \<rparr>"
      and d = "\<lparr> embedding = [1 / 2, 0, - 1] \<rparr>" and ds = "[]"
      and create' = ?create and request' = ?request and result = ?result]
  from fact have run: "embedContent ?create ?request = Inr ?result"
    by simp
  with fact have "\<exists>response' d' ds'. ?create
        \<lparr> embedding_model = ''text-embedding-3-small'',
          embedding_input =
            join newline (map msg_content (convertToOpenAIMessages (embed_contents ?request))) \<rparr>
        = Inr response'
      \<and> data response' = d' # ds'
      \<and> embeddings ?result = Some [\<lparr> embedding_values = embedding d' \<rparr>]"
    by blast
  then have "\<exists>d :: Embedding. embeddings ?result = Some [\<lparr> embedding_values = embedding d \<rparr>]"
    by blast
  with run show ?thesis by (rule conjI)
qed

end
